theory Spec2Isabelle
  imports Complex_Main
begin

section \<open>Tensors and TensorFlow operations used by the kernel\<close>

text \<open>
  The event tensor is a rank-3 floating-point tensor, indexed by metapopulation, time and
  transition. It is embedded as a nested list whose entries are the exact values the
  floats hold; sums and differences of entries are exact, as they are for event counts
  in the range of the float type. Index tensors hold Python/TensorFlow integers.
  Every operation that raises in the source returns \<open>Inl\<close> of an error here.
\<close>

type_synonym events = "real list list list"

datatype error = TypeError | InvalidArgumentError

text \<open>A value that is either a scalar (rank 0) or a vector (rank 1).\<close>

datatype 'a tensor01 = Scalar 'a | Vector "'a list"

text \<open>\<^verbatim>\<open>_maybe_expand_dims\<close>: a scalar gets one dimension, anything else is returned as it is.\<close>

fun maybe_expand_dims :: "'a tensor01 \<Rightarrow> 'a list" where
  "maybe_expand_dims (Scalar v) = [v]"
| "maybe_expand_dims (Vector xs) = xs"

text \<open>
  \<^verbatim>\<open>tf.stack([m, t, x], axis=-1)\<close> on rank-1 tensors: the three inputs must have one
  shape; row \<open>i\<close> of the result is the index triple \<open>(m[i], t[i], x[i])\<close>.
\<close>

definition tf_stack :: "int list \<Rightarrow> int list \<Rightarrow> int list \<Rightarrow> error + (int \<times> int \<times> int) list" where
  "tf_stack a b c =
     (if length a = length b \<and> length b = length c then Inr (zip a (zip b c))
      else Inl InvalidArgumentError)"

definition in_bounds :: "nat \<Rightarrow> int \<Rightarrow> bool" where
  "in_bounds n i \<longleftrightarrow> 0 \<le> i \<and> i < int n"

text \<open>
  One row of \<^verbatim>\<open>tf.tensor_scatter_nd_add\<close>: the value is added to the cell the index
  triple names; an index outside the tensor is an error (negative indices are not
  counted from the end by the scatter operations).
\<close>

fun scatter_add_cell :: "events \<Rightarrow> int \<times> int \<times> int \<Rightarrow> real \<Rightarrow> error + events" where
  "scatter_add_cell ev (m, t, x) v =
     (if in_bounds (length ev) m \<and> in_bounds (length (ev ! nat m)) t
         \<and> in_bounds (length (ev ! nat m ! nat t)) x
      then Inr (ev[nat m := (ev ! nat m)[nat t :=
                  (ev ! nat m ! nat t)[nat x := ev ! nat m ! nat t ! nat x + v]]])
      else Inl InvalidArgumentError)"

fun scatter_add_rows :: "events \<Rightarrow> ((int \<times> int \<times> int) \<times> real) list \<Rightarrow> error + events" where
  "scatter_add_rows ev [] = Inr ev"
| "scatter_add_rows ev ((i, v) # rest) =
     (case scatter_add_cell ev i v of
        Inl e \<Rightarrow> Inl e
      | Inr ev' \<Rightarrow> scatter_add_rows ev' rest)"

text \<open>
  \<^verbatim>\<open>tf.tensor_scatter_nd_add(events, indices, updates)\<close> with \<open>indices\<close> of shape
  \<open>[k, 3]\<close> on a rank-3 tensor: \<open>updates\<close> must have shape \<open>[k]\<close>; repeated indices
  accumulate.
\<close>

definition tensor_scatter_nd_add ::
  "events \<Rightarrow> (int \<times> int \<times> int) list \<Rightarrow> real list \<Rightarrow> error + events" where
  "tensor_scatter_nd_add ev indices updates =
     (if length indices = length updates then scatter_add_rows ev (zip indices updates)
      else Inl InvalidArgumentError)"

text \<open>
  Python indexing of one axis of extent \<open>n\<close> by an integer: a negative index counts from
  the end, an index outside \<open>[-n, n)\<close> raises.
\<close>

definition normalize_index :: "nat \<Rightarrow> int \<Rightarrow> nat option" where
  "normalize_index n i =
     (if 0 \<le> i \<and> i < int n then Some (nat i)
      else if - int n \<le> i \<and> i < 0 then Some (nat (int n + i))
      else None)"

text \<open>
  \<^verbatim>\<open>current_events[..., x]\<close>: the rank-2 slice of the last axis at \<open>x\<close>. A nested list
  does not record the extent of an axis below an empty one, so the index is checked
  against every innermost row.
\<close>

definition last_axis_slice :: "events \<Rightarrow> int \<Rightarrow> error + real list list" where
  "last_axis_slice ev x =
     (if \<forall>row \<in> set ev. \<forall>r \<in> set row. normalize_index (length r) x \<noteq> None
      then Inr (map (map (\<lambda>r. r ! the (normalize_index (length r) x))) ev)
      else Inl InvalidArgumentError)"

text \<open>\<^verbatim>\<open>tf.math.count_nonzero\<close> of a rank-2 tensor, over all its entries.\<close>

definition count_nonzero :: "real list list \<Rightarrow> nat" where
  "count_nonzero sl = length (filter (\<lambda>v. v \<noteq> 0) (concat sl))"

text \<open>
  \<^verbatim>\<open>_add_events\<close>: adds \<open>x_star\<close> events to metapopulation \<open>m\<close>, time \<open>t\<close>,
  transition \<open>x\<close> in \<open>events\<close>.
\<close>

definition add_events ::
  "events \<Rightarrow> int list \<Rightarrow> int list \<Rightarrow> int tensor01 \<Rightarrow> real list \<Rightarrow> error + events" where
  "add_events ev m t x x_star =
     (case tf_stack m t (maybe_expand_dims x) of
        Inl e \<Rightarrow> Inl e
      | Inr indices \<Rightarrow> tensor_scatter_nd_add ev indices x_star)"

section \<open>The occult proposals, as the kernel uses them\<close>

text \<open>
  The sampled update is the dictionary with keys \<open>m\<close>, \<open>t\<close> and \<open>x_star\<close>, each an
  integer tensor of rank 1 (the kernel concatenates them along axis 0). Their integer
  type is declared by the proposals; the values are taken as mathematical integers.
\<close>

record update =
  upd_m :: "int list"
  upd_t :: "int list"
  upd_x_star :: "int list"

text \<open>
  A proposal distribution offers \<open>sample\<close> and \<open>log_prob\<close>. The kernel calls
  \<open>sample()\<close> without a seed, so the draw is a function of the state \<open>'g\<close> of
  the ambient random generator.
\<close>

record 'g proposal =
  sample :: "'g \<Rightarrow> update"
  log_prob :: "update \<Rightarrow> real list"

text \<open>The topology; the kernel reads its \<open>target\<close> field only.\<close>

record topology =
  target :: int

text \<open>
  The module \<^verbatim>\<open>gemlib_tfp.mcmc.occult_proposal\<close> is imported by the kernel; its two
  constructors are taken as parameters, with the keyword arguments in the order
  \<open>events\<close>, \<open>topology\<close>, \<open>initial_state\<close>, \<open>n_max\<close>, \<open>t_range\<close>, \<open>name\<close> for the add
  proposal and \<open>events\<close>, \<open>topology\<close>, \<open>initial_state\<close>, \<open>t_range\<close>, \<open>n_max\<close> for the
  delete proposal.
\<close>

record 'g occult_proposal =
  AddOccultProposal ::
    "events \<Rightarrow> topology \<Rightarrow> real list list \<Rightarrow> int \<Rightarrow> (int \<times> int) option \<Rightarrow> string option
       \<Rightarrow> 'g proposal"
  DelOccultProposal ::
    "events \<Rightarrow> topology \<Rightarrow> real list list \<Rightarrow> (int \<times> int) option \<Rightarrow> int \<Rightarrow> 'g proposal"

section \<open>UncalibratedOccultUpdate\<close>

text \<open>The constructor's arguments, as kept in \<^verbatim>\<open>self._parameters\<close>.\<close>

record kernel =
  target_log_prob_fn :: "events \<Rightarrow> real"
  topology :: topology
  cumulative_event_offset :: "real list list"
  nmax :: int
  t_range :: "(int \<times> int) option"
  seed :: "int option"
  name :: "string option"

record OccultKernelResults =
  log_acceptance_correction :: real
  target_log_prob :: real
  extra :: "int list"

text \<open>
  \<^verbatim>\<open>add_occult_fn\<close>, from the statement after \<^verbatim>\<open>update = proposal.sample()\<close> on,
  for a given update.
\<close>

definition add_occult_at ::
  "'g occult_proposal \<Rightarrow> kernel \<Rightarrow> events \<Rightarrow> update \<Rightarrow> error + (update \<times> events \<times> real)" where
  "add_occult_at P k current_events upd =
     (let proposal = AddOccultProposal P current_events (topology k)
                       (cumulative_event_offset k) (nmax k) (t_range k) (name k)
      in case add_events current_events (upd_m upd) (upd_t upd)
                (Scalar (target (topology k))) (map real_of_int (upd_x_star upd)) of
           Inl e \<Rightarrow> Inl e
         | Inr next_state \<Rightarrow>
             (let reverse = DelOccultProposal P next_state (topology k)
                              (cumulative_event_offset k) (t_range k) (nmax k);
                  q_fwd = sum_list (log_prob proposal upd);
                  q_rev = sum_list (log_prob reverse upd)
              in Inr (upd, next_state, q_rev - q_fwd)))"

definition add_occult_fn ::
  "'g occult_proposal \<Rightarrow> kernel \<Rightarrow> events \<Rightarrow> 'g \<Rightarrow> error + (update \<times> events \<times> real)" where
  "add_occult_fn P k current_events g =
     add_occult_at P k current_events
       (sample (AddOccultProposal P current_events (topology k)
                  (cumulative_event_offset k) (nmax k) (t_range k) (name k)) g)"

text \<open>
  \<^verbatim>\<open>del_occult_fn\<close>, from the statement after \<^verbatim>\<open>update = proposal.sample()\<close> on.
  The reverse proposal is named \<^verbatim>\<open>self.name + "rev"\<close>, which raises a
  \<open>TypeError\<close> when the kernel was constructed with the default name \<open>None\<close>.
\<close>

definition del_occult_at ::
  "'g occult_proposal \<Rightarrow> kernel \<Rightarrow> events \<Rightarrow> update \<Rightarrow> error + (update \<times> events \<times> real)" where
  "del_occult_at P k current_events upd =
     (let proposal = DelOccultProposal P current_events (topology k)
                       (cumulative_event_offset k) (t_range k) (nmax k)
      in case add_events current_events (upd_m upd) (upd_t upd)
                (Vector [target (topology k)])
                (map real_of_int (map uminus (upd_x_star upd))) of
           Inl e \<Rightarrow> Inl e
         | Inr next_state \<Rightarrow>
             (case name k of
                None \<Rightarrow> Inl TypeError
              | Some n \<Rightarrow>
                  (let reverse = AddOccultProposal P next_state (topology k)
                                   (cumulative_event_offset k) (nmax k) (t_range k)
                                   (Some (n @ ''rev''));
                       q_fwd = sum_list (log_prob proposal upd);
                       q_rev = sum_list (log_prob reverse upd)
                   in Inr (upd, next_state, q_rev - q_fwd))))"

definition del_occult_fn ::
  "'g occult_proposal \<Rightarrow> kernel \<Rightarrow> events \<Rightarrow> 'g \<Rightarrow> error + (update \<times> events \<times> real)" where
  "del_occult_fn P k current_events g =
     del_occult_at P k current_events
       (sample (DelOccultProposal P current_events (topology k)
                  (cumulative_event_offset k) (t_range k) (nmax k)) g)"

text \<open>
  The statements of \<^verbatim>\<open>one_step\<close> after \<^verbatim>\<open>tf.cond\<close>: the target log
  density of the new state is evaluated and the results record is built; the
  diagnostics are \<^verbatim>\<open>tf.concat([delta["m"], delta["t"], delta["x_star"]], axis=0)\<close>.
\<close>

definition one_step_emit ::
  "kernel \<Rightarrow> error + (update \<times> events \<times> real) \<Rightarrow> error + (events \<times> OccultKernelResults)" where
  "one_step_emit k branch =
     (case branch of
        Inl e \<Rightarrow> Inl e
      | Inr (delta, next_state, lac) \<Rightarrow>
          Inr (next_state,
               \<lparr>log_acceptance_correction = lac,
                target_log_prob = target_log_prob_fn k next_state,
                extra = upd_m delta @ upd_t delta @ upd_x_star delta\<rparr>))"

text \<open>
  \<^verbatim>\<open>one_step\<close>. The uniform variate \<open>u\<close> and the generator state \<open>g\<close> seen by the
  chosen proposal are the random inputs of the call. \<^verbatim>\<open>tf.cond\<close> runs the first
  closure (\<^verbatim>\<open>del_occult_fn\<close>) when its predicate holds and the second
  (\<^verbatim>\<open>add_occult_fn\<close>) otherwise.
\<close>

definition one_step ::
  "'g occult_proposal \<Rightarrow> kernel \<Rightarrow> events \<Rightarrow> OccultKernelResults \<Rightarrow> real \<Rightarrow> 'g
     \<Rightarrow> error + (events \<times> OccultKernelResults)" where
  "one_step P k current_events previous_kernel_results u g =
     (case last_axis_slice current_events (target (topology k)) of
        Inl e \<Rightarrow> Inl e
      | Inr sl \<Rightarrow>
          one_step_emit k
            (if u < 0.5 \<and> count_nonzero sl > 0
             then del_occult_fn P k current_events g
             else add_occult_fn P k current_events g))"

definition bootstrap_results :: "kernel \<Rightarrow> events \<Rightarrow> OccultKernelResults" where
  "bootstrap_results k init_state =
     \<lparr>log_acceptance_correction = 0,
      target_log_prob = target_log_prob_fn k init_state,
      extra = [0, 0, 0]\<rparr>"

text \<open>A chain of \<open>one_step\<close> calls: the states a driver can hold after any number of
  calls that returned, whatever the random inputs and previous results were.\<close>

inductive reachable :: "'g occult_proposal \<Rightarrow> kernel \<Rightarrow> events \<Rightarrow> events \<Rightarrow> bool"
  for P :: "'g occult_proposal" and k :: kernel and ev0 :: events where
  start: "reachable P k ev0 ev0"
| step: "reachable P k ev0 ev \<Longrightarrow> one_step P k ev prev u g = Inr (ev', r)
           \<Longrightarrow> reachable P k ev0 ev'"

definition non_negative :: "events \<Rightarrow> bool" where
  "non_negative ev \<longleftrightarrow> (\<forall>row \<in> set ev. \<forall>r \<in> set row. \<forall>v \<in> set r. 0 \<le> v)"

text \<open>The proposals a kernel builds on a state, with the kernel's own parameters.\<close>

abbreviation add_proposal :: "'g occult_proposal \<Rightarrow> kernel \<Rightarrow> events \<Rightarrow> string option \<Rightarrow> 'g proposal" where
  "add_proposal P k ev nm \<equiv>
     AddOccultProposal P ev (topology k) (cumulative_event_offset k) (nmax k) (t_range k) nm"

abbreviation del_proposal :: "'g occult_proposal \<Rightarrow> kernel \<Rightarrow> events \<Rightarrow> 'g proposal" where
  "del_proposal P k ev \<equiv>
     DelOccultProposal P ev (topology k) (cumulative_event_offset k) (t_range k) (nmax k)"

section \<open>What the specification says of the proposals\<close>

text \<open>
  Modelled from the spec: \<^verbatim>\<open>AddOccultProposal.sample\<close> (module
  \<^verbatim>\<open>gemlib_tfp.mcmc.occult_proposal\<close>, not among the sources). It never proposes
  a count exceeding \<open>n_max\<close>.
\<close>

definition add_sample_capped :: "'g occult_proposal \<Rightarrow> bool" where
  "add_sample_capped P \<longleftrightarrow>
     (\<forall>ev tp init n_max tr nm g.
        \<forall>x \<in> set (upd_x_star (sample (AddOccultProposal P ev tp init n_max tr nm) g)).
          x \<le> n_max)"

text \<open>
  Modelled from the spec: \<^verbatim>\<open>AddOccultProposal.sample\<close> (same module). What it
  draws is a count \<open>x_star\<close> of events to insert, which is not negative.
\<close>

definition add_sample_count :: "'g occult_proposal \<Rightarrow> bool" where
  "add_sample_count P \<longleftrightarrow>
     (\<forall>ev tp init n_max tr nm g.
        \<forall>x \<in> set (upd_x_star (sample (AddOccultProposal P ev tp init n_max tr nm) g)).
          0 \<le> x)"

text \<open>
  Modelled from the spec: \<^verbatim>\<open>DelOccultProposal.sample\<close> (same module). It draws a
  metapopulation, a time and a count to remove at the target transition and never
  proposes removing more events than are present at that cell.
\<close>

definition del_sample_bounded :: "'g occult_proposal \<Rightarrow> bool" where
  "del_sample_bounded P \<longleftrightarrow>
     (\<forall>ev tp init tr n_max g mi ti xi.
        upd_m (sample (DelOccultProposal P ev tp init tr n_max) g) = [mi]
        \<and> upd_t (sample (DelOccultProposal P ev tp init tr n_max) g) = [ti]
        \<and> upd_x_star (sample (DelOccultProposal P ev tp init tr n_max) g) = [xi]
        \<and> in_bounds (length ev) mi \<and> in_bounds (length (ev ! nat mi)) ti
        \<and> in_bounds (length (ev ! nat mi ! nat ti)) (target tp)
        \<longrightarrow> real_of_int xi \<le> ev ! nat mi ! nat ti ! nat (target tp))"

text \<open>
  Modelled from the spec: \<^verbatim>\<open>AddOccultProposal.log_prob\<close> (same module) is the log
  density of the triple under the proposal's sampling law, which is fixed by the
  events, the topology, the cap and the time range; the name is a label.
\<close>

definition add_log_prob_unnamed :: "'g occult_proposal \<Rightarrow> bool" where
  "add_log_prob_unnamed P \<longleftrightarrow>
     (\<forall>ev tp init n_max tr nm nm'.
        log_prob (AddOccultProposal P ev tp init n_max tr nm)
          = log_prob (AddOccultProposal P ev tp init n_max tr nm'))"

section \<open>DiscreteTimeStateTransitionModel\<close>

text \<open>
  The constructor's arguments. \<open>num_steps\<close> is the number of time steps, a Python
  integer, which \<^verbatim>\<open>tf.get_static_value\<close> returns as it is. The rate function is opaque
  to the class.
\<close>

record 'h DiscreteTimeStateTransitionModel =
  transition_rates :: 'h
  stoichiometry :: "real list list"
  initial_state :: "real list list"
  initial_step :: real
  time_delta :: real
  num_steps :: nat

text \<open>
  The functions imported from \<^verbatim>\<open>gemlib_tfp.distributions.impl\<close>, taken as parameters.
  The simulation receives the seed it is called with and, like every TensorFlow sampler,
  can read the state \<open>'g\<close> of the ambient random generator. \<open>'s\<close> is the type of the
  simulated tensor and \<open>'c\<close> that of the transition coordinates.
\<close>

record ('h, 'g, 's, 'c) impl =
  discrete_markov_simulation ::
    "'h \<Rightarrow> real list list \<Rightarrow> real \<Rightarrow> real \<Rightarrow> real \<Rightarrow> real list list \<Rightarrow> int option \<Rightarrow> 'g
       \<Rightarrow> real list \<times> 's"
  transition_coords :: "real list list \<Rightarrow> 'c"
  batch_gather :: "'s \<Rightarrow> 'c \<Rightarrow> real list list list"

definition batch_shape :: "'h DiscreteTimeStateTransitionModel \<Rightarrow> nat list" where
  "batch_shape mdl = []"

definition event_shape :: "'h DiscreteTimeStateTransitionModel \<Rightarrow> nat list" where
  "event_shape mdl =
     [length (initial_state mdl), num_steps mdl, length (stoichiometry mdl)]"

text \<open>
  \<^verbatim>\<open>_sample_n\<close>. The keyword arguments of the simulation are passed in the order
  \<open>hazard_fn\<close>, \<open>state\<close>, \<open>start\<close>, \<open>end\<close>, \<open>time_step\<close>, \<open>stoichiometry\<close>,
  \<open>seed\<close>. \<^verbatim>\<open>tf.transpose(sim, perm=(1, 0, 2))\<close> exchanges the two leading axes and
  \<^verbatim>\<open>tf.expand_dims(sim, 0)\<close> puts an axis of extent 1 in front.
\<close>

definition sample_n ::
  "('h, 'g, 's, 'c) impl \<Rightarrow> 'h DiscreteTimeStateTransitionModel \<Rightarrow> int \<Rightarrow> int option \<Rightarrow> 'g
     \<Rightarrow> real list list list list" where
  "sample_n I mdl n sd g =
     (let (t, sim) = discrete_markov_simulation I (transition_rates mdl) (initial_state mdl)
                       (initial_step mdl)
                       (initial_step mdl + real (num_steps mdl) * time_delta mdl)
                       (time_delta mdl) (stoichiometry mdl) sd g;
          indices = transition_coords I (stoichiometry mdl);
          sim = batch_gather I sim indices;
          sim = transpose sim
      in [sim])"

text \<open>
  Modelled from the spec: \<^verbatim>\<open>discrete_markov_simulation\<close> (module
  \<^verbatim>\<open>gemlib_tfp.distributions.impl.discrete_markov\<close>, not among the sources). A single
  seed is threaded through every per-step draw: with a seed given, the simulation is
  the same whatever the ambient generator holds.
\<close>

definition seed_threaded :: "('h, 'g, 's, 'c) impl \<Rightarrow> bool" where
  "seed_threaded I \<longleftrightarrow>
     (\<forall>h st a b dt sto s g g'.
        discrete_markov_simulation I h st a b dt sto (Some s) g
          = discrete_markov_simulation I h st a b dt sto (Some s) g')"

section \<open>A concrete kernel and model\<close>

text \<open>
  A small instance on which the statements below are evaluated: one metapopulation, two
  times, two transitions, the second being the target. The generator state is the raw
  triple the proposal turns into its draw.
\<close>

definition example_add ::
  "events \<Rightarrow> topology \<Rightarrow> real list list \<Rightarrow> int \<Rightarrow> (int \<times> int) option \<Rightarrow> string option
     \<Rightarrow> (int \<times> int \<times> int) proposal" where
  "example_add ev tp init n_max tr nm =
     \<lparr>sample = (\<lambda>(a, b, c). \<lparr>upd_m = [a], upd_t = [b],
                      upd_x_star = (if 0 \<le> n_max then [max 0 (min c n_max)] else [])\<rparr>),
      log_prob = (\<lambda>upd. [- real_of_int (n_max + 2) - sum_list (concat (concat ev))])\<rparr>"

definition example_del ::
  "events \<Rightarrow> topology \<Rightarrow> real list list \<Rightarrow> (int \<times> int) option \<Rightarrow> int
     \<Rightarrow> (int \<times> int \<times> int) proposal" where
  "example_del ev tp init tr n_max =
     \<lparr>sample = (\<lambda>(a, b, c). \<lparr>upd_m = [a], upd_t = [b],
                      upd_x_star = [min c \<lfloor>ev ! nat a ! nat b ! nat (target tp)\<rfloor>]\<rparr>),
      log_prob = (\<lambda>upd. [- sum_list (concat (concat ev))])\<rparr>"

definition example_proposals :: "(int \<times> int \<times> int) occult_proposal" where
  "example_proposals = \<lparr>AddOccultProposal = example_add, DelOccultProposal = example_del\<rparr>"

definition example_kernel :: kernel where
  "example_kernel =
     \<lparr>target_log_prob_fn = (\<lambda>ev. - sum_list (concat (concat ev))),
      topology = \<lparr>target = 1\<rparr>,
      cumulative_event_offset = [[10, 0]],
      nmax = 5,
      t_range = None,
      seed = None,
      name = Some ''occult''\<rparr>"

definition example_events :: events where
  "example_events = [[[3, 2], [1, 0]]]"

definition zero_target_events :: events where
  "zero_target_events = [[[3, 0], [1, 0]]]"

definition example_impl :: "(unit, int, real list list list, unit) impl" where
  "example_impl =
     \<lparr>discrete_markov_simulation =
        (\<lambda>h st a b dt sto sd g.
           ([a], [map (map (\<lambda>v. v + real_of_int (case sd of None \<Rightarrow> g | Some s \<Rightarrow> s))) st])),
      transition_coords = (\<lambda>sto. ()),
      batch_gather = (\<lambda>sim c. sim)\<rparr>"

definition example_model :: "unit DiscreteTimeStateTransitionModel" where
  "example_model =
     \<lparr>transition_rates = (),
      stoichiometry = [[-1, 1]],
      initial_state = [[100, 0]],
      initial_step = 0,
      time_delta = 1,
      num_steps = 5\<rparr>"

section \<open>Facts about the tensor operations\<close>

lemma length_one_conv: "length xs = Suc 0 \<longleftrightarrow> (\<exists>v. xs = [v])"
  by (cases xs) auto

lemma scatter_add_cell_Inr:
  "scatter_add_cell ev (mi, ti, xi) v = Inr ev' \<longleftrightarrow>
     in_bounds (length ev) mi \<and> in_bounds (length (ev ! nat mi)) ti
     \<and> in_bounds (length (ev ! nat mi ! nat ti)) xi
     \<and> ev' = ev[nat mi := (ev ! nat mi)[nat ti :=
                  (ev ! nat mi ! nat ti)[nat xi := ev ! nat mi ! nat ti ! nat xi + v]]]"
  by (cases "in_bounds (length ev) mi \<and> in_bounds (length (ev ! nat mi)) ti
     \<and> in_bounds (length (ev ! nat mi ! nat ti)) xi") auto

declare scatter_add_cell.simps [simp del]

text \<open>
  The transition index has shape \<open>[1]\<close>, so a scatter that succeeds had \<open>m\<close>, \<open>t\<close> and
  the counts of shape \<open>[1]\<close> too, and touched one cell.
\<close>

lemma add_events_single:
  assumes "add_events ev m t x xs = Inr ev'" and "maybe_expand_dims x = [xi]"
  shows "\<exists>mi ti v. m = [mi] \<and> t = [ti] \<and> xs = [v] \<and> scatter_add_cell ev (mi, ti, xi) v = Inr ev'"
proof -
  from assms have len: "length m = 1" "length t = 1" "length xs = 1"
    by (auto simp: add_events_def tf_stack_def tensor_scatter_nd_add_def split: if_splits)
  then obtain mi ti v where eq: "m = [mi]" "t = [ti]" "xs = [v]"
    by (auto simp: length_one_conv)
  from assms(1) have "scatter_add_cell ev (mi, ti, xi) v = Inr ev'"
    unfolding eq add_events_def tf_stack_def tensor_scatter_nd_add_def assms(2)
    by (simp split: sum.splits)
  with eq show ?thesis by blast
qed

lemma add_events_singleI:
  "scatter_add_cell ev (mi, ti, xi) v = Inr ev' \<Longrightarrow> maybe_expand_dims x = [xi]
   \<Longrightarrow> add_events ev [mi] [ti] x [v] = Inr ev'"
  by (simp add: add_events_def tf_stack_def tensor_scatter_nd_add_def)

lemma branch_single_cell:
  assumes "add_events ev (upd_m upd) (upd_t upd) x (map real_of_int xs) = Inr next_state"
    and "maybe_expand_dims x = [xi]"
  shows "\<exists>mi ti v. upd_m upd = [mi] \<and> upd_t upd = [ti] \<and> xs = [v]
           \<and> scatter_add_cell ev (mi, ti, xi) (real_of_int v) = Inr next_state"
proof -
  from add_events_single [OF assms] obtain mi ti w where
    "upd_m upd = [mi]" "upd_t upd = [ti]" "map real_of_int xs = [w]"
    "scatter_add_cell ev (mi, ti, xi) w = Inr next_state" by auto
  then show ?thesis by (cases xs) auto
qed

text \<open>Adding \<open>v\<close> to a cell and then \<open>- v\<close> to the same cell gives the tensor back.\<close>

lemma scatter_add_cell_inverse:
  assumes "scatter_add_cell ev (mi, ti, xi) v = Inr ev'"
  shows "scatter_add_cell ev' (mi, ti, xi) (- v) = Inr ev"
proof -
  from assms have b: "in_bounds (length ev) mi" "in_bounds (length (ev ! nat mi)) ti"
     "in_bounds (length (ev ! nat mi ! nat ti)) xi"
    and e: "ev' = ev[nat mi := (ev ! nat mi)[nat ti :=
                  (ev ! nat mi ! nat ti)[nat xi := ev ! nat mi ! nat ti ! nat xi + v]]]"
    by (simp_all add: scatter_add_cell_Inr)
  from b have n: "nat mi < length ev" "nat ti < length (ev ! nat mi)"
     "nat xi < length (ev ! nat mi ! nat ti)"
    by (auto simp: in_bounds_def)
  show ?thesis
    using b n by (simp add: e scatter_add_cell_Inr list_update_same_conv)
qed

lemma nth_cell_update:
  assumes "m < length ev" "t < length (ev ! m)" "x < length (ev ! m ! t)"
  shows "ev[m := (ev ! m)[t := (ev ! m ! t)[x := w]]] ! a ! b ! c
           = (if a = m \<and> b = t \<and> c = x then w else ev ! a ! b ! c)"
proof (cases "a = m")
  case True
  show ?thesis
  proof (cases "b = t")
    case True
    with \<open>a = m\<close> assms show ?thesis by (simp add: nth_list_update)
  next
    case False
    with \<open>a = m\<close> assms show ?thesis by simp
  qed
next
  case False
  then show ?thesis by simp
qed

lemma count_nonzero_pos:
  "0 < count_nonzero sl \<longleftrightarrow> (\<exists>row \<in> set sl. \<exists>v \<in> set row. v \<noteq> 0)"
  by (auto simp: count_nonzero_def filter_empty_conv)

lemma bex_set_nth: "(\<exists>x \<in> set xs. P x) \<longleftrightarrow> (\<exists>i < length xs. P (xs ! i))"
  by (metis in_set_conv_nth)

lemma last_axis_slice_Inr:
  "last_axis_slice ev x = Inr sl \<Longrightarrow>
     sl = map (map (\<lambda>r. r ! the (normalize_index (length r) x))) ev"
  by (auto simp: last_axis_slice_def split: if_splits)

text \<open>The slice has a non-zero entry exactly when some cell of the tensor at the target
  transition is non-zero.\<close>

lemma slice_nonzero:
  assumes "last_axis_slice ev x = Inr sl"
  shows "0 < count_nonzero sl \<longleftrightarrow>
     (\<exists>m < length ev. \<exists>t < length (ev ! m).
        ev ! m ! t ! the (normalize_index (length (ev ! m ! t)) x) \<noteq> 0)"
proof -
  note sl = last_axis_slice_Inr [OF assms]
  have "(\<exists>row \<in> set sl. \<exists>v \<in> set row. v \<noteq> 0) \<longleftrightarrow>
        (\<exists>row \<in> set ev. \<exists>r \<in> set row. r ! the (normalize_index (length r) x) \<noteq> 0)"
    unfolding sl by auto
  also have "\<dots> \<longleftrightarrow> (\<exists>m < length ev. \<exists>t < length (ev ! m).
        ev ! m ! t ! the (normalize_index (length (ev ! m ! t)) x) \<noteq> 0)"
    by (simp add: bex_set_nth)
  finally show ?thesis unfolding count_nonzero_pos .
qed

lemma non_negative_cell:
  "non_negative ev \<Longrightarrow> m < length ev \<Longrightarrow> t < length (ev ! m) \<Longrightarrow> x < length (ev ! m ! t)
     \<Longrightarrow> 0 \<le> ev ! m ! t ! x"
  unfolding non_negative_def by (meson nth_mem)

lemma non_negative_update:
  assumes nn: "non_negative ev" and m: "m < length ev" and t: "t < length (ev ! m)"
    and w: "0 \<le> w"
  shows "non_negative (ev[m := (ev ! m)[t := (ev ! m ! t)[x := w]]])"
  unfolding non_negative_def
proof (intro ballI)
  fix row r v
  assume row: "row \<in> set (ev[m := (ev ! m)[t := (ev ! m ! t)[x := w]]])"
    and r: "r \<in> set row" and v: "v \<in> set r"
  from m have em: "ev ! m \<in> set ev" by simp
  from t have et: "ev ! m ! t \<in> set (ev ! m)" by simp
  from row have "row = (ev ! m)[t := (ev ! m ! t)[x := w]] \<or> row \<in> set ev"
    using set_update_subset_insert [of ev m] by blast
  then show "0 \<le> v"
  proof
    assume "row \<in> set ev"
    with nn r v show ?thesis unfolding non_negative_def by blast
  next
    assume "row = (ev ! m)[t := (ev ! m ! t)[x := w]]"
    with r have "r = (ev ! m ! t)[x := w] \<or> r \<in> set (ev ! m)"
      using set_update_subset_insert [of "ev ! m" t] by blast
    then show ?thesis
    proof
      assume "r \<in> set (ev ! m)"
      with nn em v show ?thesis unfolding non_negative_def by blast
    next
      assume "r = (ev ! m ! t)[x := w]"
      with v have "v = w \<or> v \<in> set (ev ! m ! t)"
        using set_update_subset_insert [of "ev ! m ! t" x] by blast
      with nn em et w show ?thesis unfolding non_negative_def by blast
    qed
  qed
qed

section \<open>When the branches and the step return\<close>

lemma add_occult_at_Inr:
  "add_occult_at P k ev upd = Inr (d, next_state, c) \<longleftrightarrow>
     d = upd
     \<and> add_events ev (upd_m upd) (upd_t upd) (Scalar (target (topology k)))
          (map real_of_int (upd_x_star upd)) = Inr next_state
     \<and> c = sum_list (log_prob (del_proposal P k next_state) upd)
           - sum_list (log_prob (add_proposal P k ev (name k)) upd)"
  by (auto simp: add_occult_at_def Let_def split: sum.splits)

lemma del_occult_at_Inr:
  "del_occult_at P k ev upd = Inr (d, next_state, c) \<longleftrightarrow>
     d = upd
     \<and> add_events ev (upd_m upd) (upd_t upd) (Vector [target (topology k)])
          (map real_of_int (map uminus (upd_x_star upd))) = Inr next_state
     \<and> (\<exists>n. name k = Some n
           \<and> c = sum_list (log_prob (add_proposal P k next_state (Some (n @ ''rev''))) upd)
                 - sum_list (log_prob (del_proposal P k ev) upd))"
  by (auto simp: del_occult_at_def Let_def split: sum.splits option.splits)

text \<open>A kernel constructed without a name cannot finish its delete branch.\<close>

lemma del_occult_at_unnamed:
  "name k = None \<Longrightarrow> \<exists>e. del_occult_at P k ev upd = Inl e"
  by (simp add: del_occult_at_def Let_def split: sum.splits)

lemma one_step_Inr:
  "one_step P k ev prev u g = Inr (next_state, r) \<longleftrightarrow>
     (\<exists>sl d c. last_axis_slice ev (target (topology k)) = Inr sl
        \<and> (if u < 1 / 2 \<and> 0 < count_nonzero sl
            then del_occult_fn P k ev g else add_occult_fn P k ev g) = Inr (d, next_state, c)
        \<and> r = \<lparr>log_acceptance_correction = c,
                target_log_prob = target_log_prob_fn k next_state,
                extra = upd_m d @ upd_t d @ upd_x_star d\<rparr>)"
  by (auto simp: one_step_def one_step_emit_def split: sum.splits)

text \<open>A step that returns drew one index triple from the proposal of its branch and
  changed the cell the triple names.\<close>

lemma one_step_cell:
  assumes "one_step P k ev prev u g = Inr (next_state, r)"
  shows "\<exists>sl mi ti xi.
       last_axis_slice ev (target (topology k)) = Inr sl
     \<and> extra r = [mi, ti, xi]
     \<and> upd_m (sample (if u < 1 / 2 \<and> 0 < count_nonzero sl
                       then del_proposal P k ev else add_proposal P k ev (name k)) g) = [mi]
     \<and> upd_t (sample (if u < 1 / 2 \<and> 0 < count_nonzero sl
                       then del_proposal P k ev else add_proposal P k ev (name k)) g) = [ti]
     \<and> upd_x_star (sample (if u < 1 / 2 \<and> 0 < count_nonzero sl
                       then del_proposal P k ev else add_proposal P k ev (name k)) g) = [xi]
     \<and> in_bounds (length ev) mi \<and> in_bounds (length (ev ! nat mi)) ti
     \<and> in_bounds (length (ev ! nat mi ! nat ti)) (target (topology k))
     \<and> next_state = ev[nat mi := (ev ! nat mi)[nat ti := (ev ! nat mi ! nat ti)
          [nat (target (topology k)) :=
             ev ! nat mi ! nat ti ! nat (target (topology k))
             + (if u < 1 / 2 \<and> 0 < count_nonzero sl then - real_of_int xi else real_of_int xi)]]]"
proof -
  let ?x = "target (topology k)"
  from assms obtain sl d c where sl: "last_axis_slice ev ?x = Inr sl"
    and br: "(if u < 1 / 2 \<and> 0 < count_nonzero sl
            then del_occult_fn P k ev g else add_occult_fn P k ev g) = Inr (d, next_state, c)"
    and r: "r = \<lparr>log_acceptance_correction = c,
                target_log_prob = target_log_prob_fn k next_state,
                extra = upd_m d @ upd_t d @ upd_x_star d\<rparr>"
    unfolding one_step_Inr by blast
  let ?del = "u < 1 / 2 \<and> 0 < count_nonzero sl"
  have "\<exists>mi ti xi. d = sample (if ?del then del_proposal P k ev
                                   else add_proposal P k ev (name k)) g
          \<and> upd_m d = [mi] \<and> upd_t d = [ti] \<and> upd_x_star d = [xi]
          \<and> scatter_add_cell ev (mi, ti, ?x)
                (if ?del then - real_of_int xi else real_of_int xi) = Inr next_state"
  proof (cases ?del)
    case True
    from br [unfolded if_P [OF True]]
    have *: "del_occult_at P k ev (sample (del_proposal P k ev) g) = Inr (d, next_state, c)"
      by (simp add: del_occult_fn_def)
    then have d: "d = sample (del_proposal P k ev) g" by (simp add: del_occult_at_Inr)
    from * have "add_events ev (upd_m d) (upd_t d) (Vector [?x])
          (map real_of_int (map uminus (upd_x_star d))) = Inr next_state"
      by (simp add: del_occult_at_Inr)
    from branch_single_cell [OF this] obtain mi ti v where
      "upd_m d = [mi]" "upd_t d = [ti]" "map uminus (upd_x_star d) = [v]"
      "scatter_add_cell ev (mi, ti, ?x) (real_of_int v) = Inr next_state" by auto
    moreover from this(3) have "upd_x_star d = [- v]" by (cases "upd_x_star d") auto
    ultimately show ?thesis using True d by auto
  next
    case False
    from br [unfolded if_not_P [OF False]]
    have *: "add_occult_at P k ev (sample (add_proposal P k ev (name k)) g)
                       = Inr (d, next_state, c)"
      by (simp add: add_occult_fn_def)
    then have d: "d = sample (add_proposal P k ev (name k)) g" by (simp add: add_occult_at_Inr)
    from * have "add_events ev (upd_m d) (upd_t d) (Scalar ?x)
          (map real_of_int (upd_x_star d)) = Inr next_state"
      by (simp add: add_occult_at_Inr)
    from branch_single_cell [OF this] obtain mi ti v where
      "upd_m d = [mi]" "upd_t d = [ti]" "upd_x_star d = [v]"
      "scatter_add_cell ev (mi, ti, ?x) (real_of_int v) = Inr next_state" by auto
    then show ?thesis using False d by auto
  qed
  then obtain mi ti xi where d: "d = sample (if ?del then del_proposal P k ev
                                   else add_proposal P k ev (name k)) g"
    and u: "upd_m d = [mi]" "upd_t d = [ti]" "upd_x_star d = [xi]"
    and sc: "scatter_add_cell ev (mi, ti, ?x)
                (if ?del then - real_of_int xi else real_of_int xi) = Inr next_state"
    by blast
  define w where "w = (if ?del then - real_of_int xi else real_of_int xi)"
  from sc have b: "in_bounds (length ev) mi" "in_bounds (length (ev ! nat mi)) ti"
      "in_bounds (length (ev ! nat mi ! nat ti)) ?x"
    and n: "next_state = ev[nat mi := (ev ! nat mi)[nat ti := (ev ! nat mi ! nat ti)
          [nat ?x := ev ! nat mi ! nat ti ! nat ?x + w]]]"
    unfolding w_def [symmetric] by (simp_all add: scatter_add_cell_Inr)
  have ex: "extra r = [mi, ti, xi]" using r u by simp
  from sl ex u b n show ?thesis
    unfolding d w_def by blast
qed

section \<open>The concrete kernel, evaluated\<close>

lemmas example_defs =
  example_proposals_def example_add_def example_del_def example_kernel_def
  example_events_def zero_target_events_def

lemmas kernel_defs =
  one_step_def one_step_emit_def del_occult_fn_def del_occult_at_def add_occult_fn_def
  add_occult_at_def add_events_def tf_stack_def tensor_scatter_nd_add_def
  scatter_add_cell.simps in_bounds_def last_axis_slice_def normalize_index_def
  count_nonzero_def bootstrap_results_def

lemma example_name: "name example_kernel = Some ''occult''"
  by (simp add: example_kernel_def)

lemma example_target: "target (topology example_kernel) = 1"
  by (simp add: example_kernel_def)

lemma example_slice:
  "last_axis_slice example_events (target (topology example_kernel)) = Inr [[2, 0]]"
  "last_axis_slice zero_target_events (target (topology example_kernel)) = Inr [[0, 0]]"
  by (simp_all add: last_axis_slice_def example_events_def zero_target_events_def
        example_kernel_def normalize_index_def)

lemma example_count: "count_nonzero [[2, 0]] = 1" "count_nonzero [[0, 0]] = 0"
  by (simp_all add: count_nonzero_def)

lemma example_delete_step:
  "one_step example_proposals example_kernel example_events
     (bootstrap_results example_kernel example_events) (1 / 4) (0, 0, 1)
   = Inr ([[[3, 1], [1, 0]]],
          \<lparr>log_acceptance_correction = - 6, target_log_prob = - 5, extra = [0, 0, 1]\<rparr>)"
  by (simp add: kernel_defs example_defs)

lemma example_add_step:
  "one_step example_proposals example_kernel example_events
     (bootstrap_results example_kernel example_events) (3 / 4) (0, 1, 9)
   = Inr ([[[3, 2], [1, 5]]],
          \<lparr>log_acceptance_correction = 2, target_log_prob = - 11, extra = [0, 1, 5]\<rparr>)"
  by (simp add: kernel_defs example_defs)

lemma example_second_step:
  "one_step example_proposals example_kernel [[[3, 1], [1, 0]]]
     \<lparr>log_acceptance_correction = - 6, target_log_prob = - 5, extra = [0, 0, 1]\<rparr>
     (3 / 4) (0, 1, 9)
   = Inr ([[[3, 1], [1, 5]]],
          \<lparr>log_acceptance_correction = 2, target_log_prob = - 10, extra = [0, 1, 5]\<rparr>)"
  by (simp add: kernel_defs example_defs)

lemma example_add_fn:
  "add_occult_fn example_proposals example_kernel example_events (0, 1, 9)
     = Inr (\<lparr>upd_m = [0], upd_t = [1], upd_x_star = [5]\<rparr>, [[[3, 2], [1, 5]]], 2)"
  by (simp add: kernel_defs example_defs)

lemma example_del_fn:
  "del_occult_fn example_proposals example_kernel example_events (0, 0, 1)
     = Inr (\<lparr>upd_m = [0], upd_t = [0], upd_x_star = [1]\<rparr>, [[[3, 1], [1, 0]]], - 6)"
  by (simp add: kernel_defs example_defs)

lemma example_unnamed: "add_log_prob_unnamed example_proposals"
  by (simp add: add_log_prob_unnamed_def example_proposals_def example_add_def)

lemma example_capped: "add_sample_capped example_proposals"
  by (auto simp: add_sample_capped_def example_proposals_def example_add_def)

lemma example_count_drawn: "add_sample_count example_proposals"
  by (auto simp: add_sample_count_def example_proposals_def example_add_def)

lemma min_floor_le: "real_of_int (min b \<lfloor>x\<rfloor>) \<le> x"
proof -
  have "real_of_int (min b \<lfloor>x\<rfloor>) \<le> real_of_int \<lfloor>x\<rfloor>" by simp
  also have "\<dots> \<le> x" by (rule of_int_floor_le)
  finally show ?thesis .
qed

lemma example_bounded: "del_sample_bounded example_proposals"
  by (auto simp: del_sample_bounded_def example_proposals_def example_del_def min_floor_le)

lemma example_seed_threaded: "seed_threaded example_impl"
  by (simp add: seed_threaded_def example_impl_def)

lemma example_sample:
  "sample_n example_impl example_model 1 (Some 42) 0 = [[[[142, 42]]]]"
  "sample_n example_impl example_model 1 None 0 = [[[[100, 0]]]]"
  "sample_n example_impl example_model 1 None 7 = [[[[107, 7]]]]"
  by (simp_all add: sample_n_def example_impl_def example_model_def)

section \<open>Properties of the kernel\<close>



text \<open>
  C2. In a step that returns, the reverse proposal is built on the new state: after a
  delete it is the add proposal on \<open>next_state\<close>, after an add the delete proposal on
  \<open>next_state\<close>; the emitted correction is the log density of the sampled update under
  the reverse proposal minus its log density under the forward proposal.
\<close>

theorem one_step_correction:
  assumes "one_step P k ev prev u g = Inr (next_state, r)"
  shows "\<exists>sl. last_axis_slice ev (target (topology k)) = Inr sl
     \<and> (if u < 1 / 2 \<and> 0 < count_nonzero sl
         then \<exists>n. name k = Some n
                \<and> log_acceptance_correction r =
                    sum_list (log_prob (add_proposal P k next_state (Some (n @ ''rev'')))
                                (sample (del_proposal P k ev) g))
                    - sum_list (log_prob (del_proposal P k ev) (sample (del_proposal P k ev) g))
         else log_acceptance_correction r =
                sum_list (log_prob (del_proposal P k next_state)
                            (sample (add_proposal P k ev (name k)) g))
                - sum_list (log_prob (add_proposal P k ev (name k))
                              (sample (add_proposal P k ev (name k)) g)))"
proof -
  from assms obtain sl d c where sl: "last_axis_slice ev (target (topology k)) = Inr sl"
    and br: "(if u < 1 / 2 \<and> 0 < count_nonzero sl
            then del_occult_fn P k ev g else add_occult_fn P k ev g) = Inr (d, next_state, c)"
    and r: "r = \<lparr>log_acceptance_correction = c,
                target_log_prob = target_log_prob_fn k next_state,
                extra = upd_m d @ upd_t d @ upd_x_star d\<rparr>"
    unfolding one_step_Inr by blast
  show ?thesis
  proof (cases "u < 1 / 2 \<and> 0 < count_nonzero sl")
    case True
    from br [unfolded if_P [OF True]] have "del_occult_fn P k ev g = Inr (d, next_state, c)" .
    then show ?thesis using sl True r
      by (auto simp: del_occult_fn_def del_occult_at_Inr)
  next
    case False
    from br [unfolded if_not_P [OF False]] have "add_occult_fn P k ev g = Inr (d, next_state, c)" .
    then show ?thesis using sl False r
      by (auto simp: add_occult_fn_def add_occult_at_Inr)
  qed
qed

theorem one_step_correction_witness:
  "one_step example_proposals example_kernel example_events
     (bootstrap_results example_kernel example_events) (1 / 4) (0, 0, 1)
   = Inr ([[[3, 1], [1, 0]]],
          \<lparr>log_acceptance_correction = - 6, target_log_prob = - 5, extra = [0, 0, 1]\<rparr>)
   \<and> (- 6 :: real) =
       sum_list (log_prob (add_proposal example_proposals example_kernel [[[3, 1], [1, 0]]]
                             (Some ''occultrev''))
                   (sample (del_proposal example_proposals example_kernel example_events) (0, 0, 1)))
       - sum_list (log_prob (del_proposal example_proposals example_kernel example_events)
                     (sample (del_proposal example_proposals example_kernel example_events) (0, 0, 1)))
   \<and> sum_list (log_prob (add_proposal example_proposals example_kernel [[[3, 1], [1, 0]]]
                            (Some ''occultrev''))
                  (sample (del_proposal example_proposals example_kernel example_events) (0, 0, 1)))
       = - 12
   \<and> sum_list (log_prob (add_proposal example_proposals example_kernel example_events
                            (Some ''occultrev''))
                  (sample (del_proposal example_proposals example_kernel example_events) (0, 0, 1)))
       = - 13
   \<and> one_step example_proposals example_kernel example_events
     (bootstrap_results example_kernel example_events) (3 / 4) (0, 1, 9)
   = Inr ([[[3, 2], [1, 5]]],
          \<lparr>log_acceptance_correction = 2, target_log_prob = - 11, extra = [0, 1, 5]\<rparr>)
   \<and> (2 :: real) =
       sum_list (log_prob (del_proposal example_proposals example_kernel [[[3, 2], [1, 5]]])
                   (sample (add_proposal example_proposals example_kernel example_events
                              (name example_kernel)) (0, 1, 9)))
       - sum_list (log_prob (add_proposal example_proposals example_kernel example_events
                               (name example_kernel))
                     (sample (add_proposal example_proposals example_kernel example_events
                                (name example_kernel)) (0, 1, 9)))
   \<and> sum_list (log_prob (del_proposal example_proposals example_kernel [[[3, 2], [1, 5]]])
                  (sample (add_proposal example_proposals example_kernel example_events
                             (name example_kernel)) (0, 1, 9)))
       = - 11
   \<and> sum_list (log_prob (del_proposal example_proposals example_kernel example_events)
                  (sample (add_proposal example_proposals example_kernel example_events
                             (name example_kernel)) (0, 1, 9)))
       = - 6"
proof -
  have del_arm: "(- 6 :: real) =
       sum_list (log_prob (add_proposal example_proposals example_kernel [[[3, 1], [1, 0]]]
                             (Some ''occultrev''))
                   (sample (del_proposal example_proposals example_kernel example_events) (0, 0, 1)))
       - sum_list (log_prob (del_proposal example_proposals example_kernel example_events)
                     (sample (del_proposal example_proposals example_kernel example_events) (0, 0, 1)))"
    using one_step_correction [OF example_delete_step]
    by (simp add: example_slice example_count example_name)
  have add_arm: "(2 :: real) =
       sum_list (log_prob (del_proposal example_proposals example_kernel [[[3, 2], [1, 5]]])
                   (sample (add_proposal example_proposals example_kernel example_events
                              (name example_kernel)) (0, 1, 9)))
       - sum_list (log_prob (add_proposal example_proposals example_kernel example_events
                               (name example_kernel))
                     (sample (add_proposal example_proposals example_kernel example_events
                                (name example_kernel)) (0, 1, 9)))"
    using one_step_correction [OF example_add_step]
    by (simp add: example_slice example_count)
  have vals:
    "sum_list (log_prob (add_proposal example_proposals example_kernel [[[3, 1], [1, 0]]]
                            (Some ''occultrev''))
                  (sample (del_proposal example_proposals example_kernel example_events) (0, 0, 1)))
       = - 12"
    "sum_list (log_prob (add_proposal example_proposals example_kernel example_events
                            (Some ''occultrev''))
                  (sample (del_proposal example_proposals example_kernel example_events) (0, 0, 1)))
       = - 13"
    "sum_list (log_prob (del_proposal example_proposals example_kernel [[[3, 2], [1, 5]]])
                  (sample (add_proposal example_proposals example_kernel example_events
                             (name example_kernel)) (0, 1, 9)))
       = - 11"
    "sum_list (log_prob (del_proposal example_proposals example_kernel example_events)
                  (sample (add_proposal example_proposals example_kernel example_events
                             (name example_kernel)) (0, 1, 9)))
       = - 6"
    by (simp_all add: example_defs)
  from example_delete_step del_arm example_add_step add_arm vals show ?thesis by blast
qed

text \<open>A step keeps the tensor non-negative when the proposals keep to what the
  specification says of their draws.\<close>

lemma one_step_non_negative:
  assumes add: "add_sample_count P" and del: "del_sample_bounded P"
    and nn: "non_negative ev" and st: "one_step P k ev prev u g = Inr (next_state, r)"
  shows "non_negative next_state"
proof -
  let ?x = "target (topology k)"
  from one_step_cell [OF st] obtain sl mi ti xi where
    um: "upd_m (sample (if u < 1 / 2 \<and> 0 < count_nonzero sl
                       then del_proposal P k ev else add_proposal P k ev (name k)) g) = [mi]"
    and ut: "upd_t (sample (if u < 1 / 2 \<and> 0 < count_nonzero sl
                       then del_proposal P k ev else add_proposal P k ev (name k)) g) = [ti]"
    and ux: "upd_x_star (sample (if u < 1 / 2 \<and> 0 < count_nonzero sl
                       then del_proposal P k ev else add_proposal P k ev (name k)) g) = [xi]"
    and b: "in_bounds (length ev) mi" "in_bounds (length (ev ! nat mi)) ti"
       "in_bounds (length (ev ! nat mi ! nat ti)) ?x"
    and n: "next_state = ev[nat mi := (ev ! nat mi)[nat ti := (ev ! nat mi ! nat ti)
          [nat ?x := ev ! nat mi ! nat ti ! nat ?x
             + (if u < 1 / 2 \<and> 0 < count_nonzero sl then - real_of_int xi else real_of_int xi)]]]"
    by blast
  from b have lt: "nat mi < length ev" "nat ti < length (ev ! nat mi)"
      "nat ?x < length (ev ! nat mi ! nat ti)"
    by (auto simp: in_bounds_def)
  have cell: "0 \<le> ev ! nat mi ! nat ti ! nat ?x"
    by (rule non_negative_cell [OF nn lt])
  have "0 \<le> ev ! nat mi ! nat ti ! nat ?x
             + (if u < 1 / 2 \<and> 0 < count_nonzero sl then - real_of_int xi else real_of_int xi)"
  proof (cases "u < 1 / 2 \<and> 0 < count_nonzero sl")
    case True
    note um [unfolded if_P [OF True]] ut [unfolded if_P [OF True]] ux [unfolded if_P [OF True]]
    with del b have "real_of_int xi \<le> ev ! nat mi ! nat ti ! nat ?x"
      unfolding del_sample_bounded_def by blast
    then show ?thesis unfolding if_P [OF True] by simp
  next
    case False
    note ux [unfolded if_not_P [OF False]]
    then have "xi \<in> set (upd_x_star (sample (add_proposal P k ev (name k)) g))" by simp
    with add have "0 \<le> xi" unfolding add_sample_count_def by blast
    with cell show ?thesis unfolding if_not_P [OF False] by simp
  qed
  from non_negative_update [OF nn lt(1) lt(2) this] show ?thesis unfolding n .
qed

text \<open>
  C3. With proposals that draw as the specification says (an add count that is not
  negative, a delete count no larger than the count at the sampled cell), every state reached
  by a sequence of \<open>one_step\<close> calls from a non-negative event tensor is non-negative.
\<close>

theorem reachable_non_negative:
  assumes "add_sample_count P" and "del_sample_bounded P"
    and "non_negative ev0" and "reachable P k ev0 ev"
  shows "non_negative ev"
  using assms(4)
proof (induction rule: reachable.induct)
  case start
  show ?case by (rule assms(3))
next
  case (step ev prev u g ev' r)
  from one_step_non_negative [OF assms(1) assms(2) step.IH step.hyps(2)] show ?case .
qed

theorem reachable_non_negative_witness:
  "add_sample_count example_proposals \<and> del_sample_bounded example_proposals
   \<and> non_negative example_events
   \<and> reachable example_proposals example_kernel example_events [[[3, 1], [1, 0]]]
   \<and> reachable example_proposals example_kernel example_events [[[3, 1], [1, 5]]]
   \<and> non_negative [[[3, 1], [1, 0]]] \<and> non_negative [[[3, 1], [1, 5]]]"
proof -
  have nn: "non_negative example_events"
    by (simp add: non_negative_def example_events_def)
  have r1: "reachable example_proposals example_kernel example_events [[[3, 1], [1, 0]]]"
    by (rule reachable.step [OF reachable.start example_delete_step])
  have r2: "reachable example_proposals example_kernel example_events [[[3, 1], [1, 5]]]"
    by (rule reachable.step [OF r1 example_second_step])
  from reachable_non_negative [OF example_count_drawn example_bounded nn r1]
    reachable_non_negative [OF example_count_drawn example_bounded nn r2]
    example_count_drawn example_bounded nn r1 r2
  show ?thesis by blast
qed

text \<open>
  C4. The state a step returns differs from the current events at one cell only, the one
  at the sampled metapopulation, the sampled time and the target transition: the add
  branch adds \<open>x_star\<close> to it, the delete branch subtracts \<open>x_star\<close> from it, and every
  other entry and the shape are unchanged.
\<close>

theorem one_step_changes_one_cell:
  assumes "one_step P k ev prev u g = Inr (next_state, r)"
  shows "\<exists>sl mi ti xi.
       last_axis_slice ev (target (topology k)) = Inr sl
     \<and> extra r = [mi, ti, xi]
     \<and> upd_m (sample (if u < 1 / 2 \<and> 0 < count_nonzero sl
                       then del_proposal P k ev else add_proposal P k ev (name k)) g) = [mi]
     \<and> upd_t (sample (if u < 1 / 2 \<and> 0 < count_nonzero sl
                       then del_proposal P k ev else add_proposal P k ev (name k)) g) = [ti]
     \<and> upd_x_star (sample (if u < 1 / 2 \<and> 0 < count_nonzero sl
                       then del_proposal P k ev else add_proposal P k ev (name k)) g) = [xi]
     \<and> in_bounds (length ev) mi \<and> in_bounds (length (ev ! nat mi)) ti
     \<and> in_bounds (length (ev ! nat mi ! nat ti)) (target (topology k))
     \<and> next_state = ev[nat mi := (ev ! nat mi)[nat ti := (ev ! nat mi ! nat ti)
          [nat (target (topology k)) :=
             ev ! nat mi ! nat ti ! nat (target (topology k))
             + (if u < 1 / 2 \<and> 0 < count_nonzero sl then - real_of_int xi else real_of_int xi)]]]
     \<and> (\<forall>a b c. next_state ! a ! b ! c =
           (if a = nat mi \<and> b = nat ti \<and> c = nat (target (topology k))
            then ev ! a ! b ! c
                 + (if u < 1 / 2 \<and> 0 < count_nonzero sl then - real_of_int xi else real_of_int xi)
            else ev ! a ! b ! c))"
proof -
  let ?x = "target (topology k)"
  from one_step_cell [OF assms] obtain sl mi ti xi where
    sl: "last_axis_slice ev ?x = Inr sl" and ex: "extra r = [mi, ti, xi]"
    and um: "upd_m (sample (if u < 1 / 2 \<and> 0 < count_nonzero sl
                       then del_proposal P k ev else add_proposal P k ev (name k)) g) = [mi]"
    and ut: "upd_t (sample (if u < 1 / 2 \<and> 0 < count_nonzero sl
                       then del_proposal P k ev else add_proposal P k ev (name k)) g) = [ti]"
    and ux: "upd_x_star (sample (if u < 1 / 2 \<and> 0 < count_nonzero sl
                       then del_proposal P k ev else add_proposal P k ev (name k)) g) = [xi]"
    and b: "in_bounds (length ev) mi" "in_bounds (length (ev ! nat mi)) ti"
       "in_bounds (length (ev ! nat mi ! nat ti)) ?x"
    and n: "next_state = ev[nat mi := (ev ! nat mi)[nat ti := (ev ! nat mi ! nat ti)
          [nat ?x := ev ! nat mi ! nat ti ! nat ?x
             + (if u < 1 / 2 \<and> 0 < count_nonzero sl then - real_of_int xi else real_of_int xi)]]]"
    by blast
  define w where
    "w = (if u < 1 / 2 \<and> 0 < count_nonzero sl then - real_of_int xi else real_of_int xi)"
  from b have lt: "nat mi < length ev" "nat ti < length (ev ! nat mi)"
      "nat ?x < length (ev ! nat mi ! nat ti)"
    by (auto simp: in_bounds_def)
  note n' = n [folded w_def]
  have pt: "\<forall>a b c. next_state ! a ! b ! c =
           (if a = nat mi \<and> b = nat ti \<and> c = nat ?x
            then ev ! a ! b ! c + w else ev ! a ! b ! c)"
    unfolding n' nth_cell_update [OF lt] by simp
  from sl ex um ut ux b n' pt show ?thesis
    unfolding w_def by blast
qed

theorem one_step_changes_one_cell_witness:
  "one_step example_proposals example_kernel example_events
     (bootstrap_results example_kernel example_events) (1 / 4) (0, 0, 1)
   = Inr ([[[3, 1], [1, 0]]],
          \<lparr>log_acceptance_correction = - 6, target_log_prob = - 5, extra = [0, 0, 1]\<rparr>)
   \<and> [[[3, 1], [1, 0]]] =
       example_events[0 := (example_events ! 0)[0 := (example_events ! 0 ! 0)
          [1 := example_events ! 0 ! 0 ! 1 + - real_of_int 1]]]
   \<and> (\<forall>a b c. [[[3, 1], [1, 0]]] ! a ! b ! c =
         (if a = 0 \<and> b = 0 \<and> c = 1 then example_events ! a ! b ! c + - real_of_int 1
          else example_events ! a ! b ! c))
   \<and> one_step example_proposals example_kernel example_events
     (bootstrap_results example_kernel example_events) (3 / 4) (0, 1, 9)
   = Inr ([[[3, 2], [1, 5]]],
          \<lparr>log_acceptance_correction = 2, target_log_prob = - 11, extra = [0, 1, 5]\<rparr>)
   \<and> [[[3, 2], [1, 5]]] =
       example_events[0 := (example_events ! 0)[1 := (example_events ! 0 ! 1)
          [1 := example_events ! 0 ! 1 ! 1 + real_of_int 5]]]
   \<and> (\<forall>a b c. [[[3, 2], [1, 5]]] ! a ! b ! c =
         (if a = 0 \<and> b = 1 \<and> c = 1 then example_events ! a ! b ! c + real_of_int 5
          else example_events ! a ! b ! c))"
proof -
  note st = example_delete_step
  from one_step_changes_one_cell [OF st] obtain sl mi ti xi where
    sl: "last_axis_slice example_events (target (topology example_kernel)) = Inr sl"
    and ex: "[0, 0, 1] = [mi, ti, xi]"
    and n: "[[[3, 1], [1, 0]]] = example_events[nat mi := (example_events ! nat mi)[nat ti :=
          (example_events ! nat mi ! nat ti)
          [nat (target (topology example_kernel)) :=
             example_events ! nat mi ! nat ti ! nat (target (topology example_kernel))
             + (if 1 / 4 < (1::real) / 2 \<and> 0 < count_nonzero sl
                then - real_of_int xi else real_of_int xi)]]]"
    and pt: "\<forall>a b c. [[[3, 1], [1, 0]]] ! a ! b ! c =
           (if a = nat mi \<and> b = nat ti \<and> c = nat (target (topology example_kernel))
            then example_events ! a ! b ! c
                 + (if 1 / 4 < (1::real) / 2 \<and> 0 < count_nonzero sl
                    then - real_of_int xi else real_of_int xi)
            else example_events ! a ! b ! c)"
    by auto
  from sl have sl': "sl = [[2, 0]]" by (simp add: example_slice)
  from ex have i: "mi = 0" "ti = 0" "xi = 1" by simp_all
  have c: "(1::real) / 4 < 1 / 2 \<and> 0 < count_nonzero sl"
    by (simp add: sl' example_count)
  from n have n': "[[[3, 1], [1, 0]]] =
       example_events[0 := (example_events ! 0)[0 := (example_events ! 0 ! 0)
          [1 := example_events ! 0 ! 0 ! 1 + - real_of_int 1]]]"
    unfolding i example_target if_P [OF c] by simp
  from pt have pt': "\<forall>a b c. [[[3, 1], [1, 0]]] ! a ! b ! c =
         (if a = 0 \<and> b = 0 \<and> c = 1 then example_events ! a ! b ! c + - real_of_int 1
          else example_events ! a ! b ! c)"
    unfolding i example_target if_P [OF c] by simp
  note sa = example_add_step
  from one_step_changes_one_cell [OF sa] obtain sk mj tj xj where
    ex2: "[0, 1, 5] = [mj, tj, xj]"
    and n2: "[[[3, 2], [1, 5]]] = example_events[nat mj := (example_events ! nat mj)[nat tj :=
          (example_events ! nat mj ! nat tj)
          [nat (target (topology example_kernel)) :=
             example_events ! nat mj ! nat tj ! nat (target (topology example_kernel))
             + (if 3 / 4 < (1::real) / 2 \<and> 0 < count_nonzero sk
                then - real_of_int xj else real_of_int xj)]]]"
    and pt2: "\<forall>a b c. [[[3, 2], [1, 5]]] ! a ! b ! c =
           (if a = nat mj \<and> b = nat tj \<and> c = nat (target (topology example_kernel))
            then example_events ! a ! b ! c
                 + (if 3 / 4 < (1::real) / 2 \<and> 0 < count_nonzero sk
                    then - real_of_int xj else real_of_int xj)
            else example_events ! a ! b ! c)"
    by auto
  from ex2 have j: "mj = 0" "tj = 1" "xj = 5" by simp_all
  have c2: "\<not> ((3::real) / 4 < 1 / 2 \<and> 0 < count_nonzero sk)" by simp
  from n2 have n2': "[[[3, 2], [1, 5]]] =
       example_events[0 := (example_events ! 0)[1 := (example_events ! 0 ! 1)
          [1 := example_events ! 0 ! 1 ! 1 + real_of_int 5]]]"
    unfolding j example_target if_not_P [OF c2] by simp
  from pt2 have pt2': "\<forall>a b c. [[[3, 2], [1, 5]]] ! a ! b ! c =
         (if a = 0 \<and> b = 1 \<and> c = 1 then example_events ! a ! b ! c + real_of_int 5
          else example_events ! a ! b ! c)"
    unfolding j example_target if_not_P [OF c2] by simp
  from st n' pt' sa n2' pt2' show ?thesis by blast
qed

text \<open>
  C5. \<open>bootstrap_results\<close> returns the target log density of the initial state, a zero
  log acceptance correction and the zero diagnostics \<open>[0, 0, 0]\<close>.
\<close>

theorem bootstrap_results_zeroed:
  "target_log_prob (bootstrap_results k init_state) = target_log_prob_fn k init_state
   \<and> log_acceptance_correction (bootstrap_results k init_state) = 0
   \<and> extra (bootstrap_results k init_state) = [0, 0, 0]"
  by (simp add: bootstrap_results_def)

text \<open>
  C6. With proposals that draw as the specification says, the count \<open>x_star\<close> a step
  reports never exceeds the kernel's cap \<open>nmax\<close> when the add branch ran, and never
  exceeds the count present at the sampled cell of the current events when the delete
  branch ran.
\<close>

theorem occult_cap:
  assumes add: "add_sample_capped P" and del: "del_sample_bounded P"
    and st: "one_step P k ev prev u g = Inr (next_state, r)"
  shows "\<exists>sl mi ti xi.
       last_axis_slice ev (target (topology k)) = Inr sl
     \<and> extra r = [mi, ti, xi]
     \<and> upd_x_star (sample (if u < 1 / 2 \<and> 0 < count_nonzero sl
                       then del_proposal P k ev else add_proposal P k ev (name k)) g) = [xi]
     \<and> (if u < 1 / 2 \<and> 0 < count_nonzero sl
         then real_of_int xi \<le> ev ! nat mi ! nat ti ! nat (target (topology k))
         else xi \<le> nmax k)"
proof -
  let ?x = "target (topology k)"
  from one_step_cell [OF st] obtain sl mi ti xi where
    sl: "last_axis_slice ev ?x = Inr sl" and ex: "extra r = [mi, ti, xi]" and
    um: "upd_m (sample (if u < 1 / 2 \<and> 0 < count_nonzero sl
                       then del_proposal P k ev else add_proposal P k ev (name k)) g) = [mi]"
    and ut: "upd_t (sample (if u < 1 / 2 \<and> 0 < count_nonzero sl
                       then del_proposal P k ev else add_proposal P k ev (name k)) g) = [ti]"
    and ux: "upd_x_star (sample (if u < 1 / 2 \<and> 0 < count_nonzero sl
                       then del_proposal P k ev else add_proposal P k ev (name k)) g) = [xi]"
    and b: "in_bounds (length ev) mi" "in_bounds (length (ev ! nat mi)) ti"
       "in_bounds (length (ev ! nat mi ! nat ti)) ?x"
    by blast
  have "if u < 1 / 2 \<and> 0 < count_nonzero sl
         then real_of_int xi \<le> ev ! nat mi ! nat ti ! nat ?x else xi \<le> nmax k"
  proof (cases "u < 1 / 2 \<and> 0 < count_nonzero sl")
    case True
    note um [unfolded if_P [OF True]] ut [unfolded if_P [OF True]] ux [unfolded if_P [OF True]]
    with del b have "real_of_int xi \<le> ev ! nat mi ! nat ti ! nat ?x"
      unfolding del_sample_bounded_def by blast
    then show ?thesis unfolding if_P [OF True] .
  next
    case False
    note ux [unfolded if_not_P [OF False]]
    then have "xi \<in> set (upd_x_star (sample (add_proposal P k ev (name k)) g))" by simp
    with add have "xi \<le> nmax k" unfolding add_sample_capped_def by blast
    then show ?thesis unfolding if_not_P [OF False] .
  qed
  with sl ex ux show ?thesis by blast
qed

theorem occult_cap_witness:
  "add_sample_capped example_proposals \<and> del_sample_bounded example_proposals
   \<and> one_step example_proposals example_kernel example_events
       (bootstrap_results example_kernel example_events) (3 / 4) (0, 1, 9)
     = Inr ([[[3, 2], [1, 5]]],
          \<lparr>log_acceptance_correction = 2, target_log_prob = - 11, extra = [0, 1, 5]\<rparr>)
   \<and> (\<exists>sl mi ti xi.
       last_axis_slice example_events (target (topology example_kernel)) = Inr sl
     \<and> [0, 1, 5] = [mi, ti, xi]
     \<and> \<not> (3 / 4 < (1::real) / 2 \<and> 0 < count_nonzero sl)
     \<and> xi \<le> nmax example_kernel)"
proof -
  from occult_cap [OF example_capped example_bounded example_add_step]
  obtain sl mi ti xi where
    sl: "last_axis_slice example_events (target (topology example_kernel)) = Inr sl"
    and ex: "[0, 1, 5] = [mi, ti, xi]"
    and cap: "if 3 / 4 < (1::real) / 2 \<and> 0 < count_nonzero sl
         then real_of_int xi \<le> example_events ! nat mi ! nat ti ! nat (target (topology example_kernel))
         else xi \<le> nmax example_kernel"
    by auto
  have c: "\<not> (3 / 4 < (1::real) / 2 \<and> 0 < count_nonzero sl)" by simp
  from cap have "xi \<le> nmax example_kernel" unfolding if_not_P [OF c] .
  with sl ex c example_capped example_bounded example_add_step show ?thesis by blast
qed

text \<open>The delete of the triple an add applied undoes it and negates its correction,
  and the other way round, when the add proposal's density does not depend on its name.\<close>

lemma add_then_scatter_back:
  assumes "add_occult_at P k s upd = Inr (d, s', c)"
  shows "add_events s' (upd_m upd) (upd_t upd) (Vector [target (topology k)])
          (map real_of_int (map uminus (upd_x_star upd))) = Inr s"
proof -
  let ?x = "target (topology k)"
  from assms have ev: "add_events s (upd_m upd) (upd_t upd) (Scalar ?x)
          (map real_of_int (upd_x_star upd)) = Inr s'"
    by (simp add: add_occult_at_Inr)
  from branch_single_cell [OF ev] obtain mi ti v where
    us: "upd_m upd = [mi]" "upd_t upd = [ti]" "upd_x_star upd = [v]"
    and sc: "scatter_add_cell s (mi, ti, ?x) (real_of_int v) = Inr s'" by auto
  from scatter_add_cell_inverse [OF sc] show ?thesis
    unfolding us by (simp add: add_events_singleI)
qed

lemma add_then_correction:
  assumes un: "add_log_prob_unnamed P" and ad: "add_occult_at P k s upd = Inr (d, s', c)"
  shows "sum_list (log_prob (add_proposal P k s nm) upd)
           - sum_list (log_prob (del_proposal P k s') upd) = - c"
proof -
  from ad have c: "c = sum_list (log_prob (del_proposal P k s') upd)
           - sum_list (log_prob (add_proposal P k s (name k)) upd)"
    by (simp add: add_occult_at_Inr)
  from un have "log_prob (add_proposal P k s nm) = log_prob (add_proposal P k s (name k))"
    unfolding add_log_prob_unnamed_def by blast
  with c show ?thesis by simp
qed

lemma add_then_del:
  assumes un: "add_log_prob_unnamed P"
    and ad: "add_occult_at P k s upd = Inr (d, s', c)" and nm: "name k = Some n"
  shows "del_occult_at P k s' upd = Inr (upd, s, - c)"
  using add_then_scatter_back [OF ad] add_then_correction [OF un ad, of "Some (n @ ''rev'')"] nm
  by (simp add: del_occult_at_Inr)

lemma del_then_add:
  assumes un: "add_log_prob_unnamed P"
    and dl: "del_occult_at P k s upd = Inr (d, s', c)"
  shows "add_occult_at P k s' upd = Inr (upd, s, - c)"
proof -
  let ?x = "target (topology k)"
  from dl obtain n where ev: "add_events s (upd_m upd) (upd_t upd) (Vector [?x])
          (map real_of_int (map uminus (upd_x_star upd))) = Inr s'"
    and nm: "name k = Some n"
    and c: "c = sum_list (log_prob (add_proposal P k s' (Some (n @ ''rev''))) upd)
                 - sum_list (log_prob (del_proposal P k s) upd)"
    unfolding del_occult_at_Inr by blast
  from branch_single_cell [OF ev] obtain mi ti v where
    us: "upd_m upd = [mi]" "upd_t upd = [ti]" "map uminus (upd_x_star upd) = [v]"
    and sc: "scatter_add_cell s (mi, ti, ?x) (real_of_int v) = Inr s'" by auto
  from us(3) have x: "upd_x_star upd = [- v]" by (cases "upd_x_star upd") auto
  from scatter_add_cell_inverse [OF sc]
  have rvt: "add_events s' (upd_m upd) (upd_t upd) (Scalar ?x)
          (map real_of_int (upd_x_star upd)) = Inr s"
    unfolding us x by (simp add: add_events_singleI)
  from un have "log_prob (add_proposal P k s' (Some (n @ ''rev'')))
                  = log_prob (add_proposal P k s' (name k))"
    unfolding add_log_prob_unnamed_def by blast
  with c have "- c = sum_list (log_prob (del_proposal P k s) upd)
           - sum_list (log_prob (add_proposal P k s' (name k)) upd)"
    by simp
  with rvt show ?thesis by (simp add: add_occult_at_Inr)
qed

text \<open>
  C9. For an add proposal whose log density does not depend on its name. When the add
  branch moved the state \<open>s\<close> to \<open>s'\<close> with the sampled triple and correction \<open>c\<close>:
  the matching delete, the scatter of \<open>- x_star\<close> at the same cell of \<open>s'\<close>, gives \<open>s\<close>
  back; its correction, the log density of the triple under the add proposal on \<open>s\<close>
  minus that under the delete proposal on \<open>s'\<close>, is \<open>- c\<close>; and the delete branch of a
  kernel that has a name, run from \<open>s'\<close> on the same triple, returns \<open>s\<close> and \<open>- c\<close>.
  Symmetrically, when the delete branch moved \<open>s\<close> to \<open>s'\<close> with correction \<open>c\<close>, the
  add branch run from \<open>s'\<close> on the same triple returns \<open>s\<close> and \<open>- c\<close>.
\<close>

theorem hastings_symmetry:
  assumes "add_log_prob_unnamed P"
  shows "(add_occult_fn P k s g = Inr (upd, s', c) \<longrightarrow>
            add_events s' (upd_m upd) (upd_t upd) (Vector [target (topology k)])
              (map real_of_int (map uminus (upd_x_star upd))) = Inr s
          \<and> (\<forall>nm. sum_list (log_prob (add_proposal P k s nm) upd)
                    - sum_list (log_prob (del_proposal P k s') upd) = - c)
          \<and> (name k \<noteq> None \<longrightarrow> del_occult_at P k s' upd = Inr (upd, s, - c)))
       \<and> (del_occult_fn P k s g = Inr (upd, s', c)
            \<longrightarrow> add_occult_at P k s' upd = Inr (upd, s, - c))"
proof (intro conjI impI allI)
  assume a: "add_occult_fn P k s g = Inr (upd, s', c)"
  then have at: "add_occult_at P k s (sample (add_proposal P k s (name k)) g) = Inr (upd, s', c)"
    by (simp add: add_occult_fn_def)
  then have "upd = sample (add_proposal P k s (name k)) g" by (simp add: add_occult_at_Inr)
  with at have ad: "add_occult_at P k s upd = Inr (upd, s', c)" by simp
  from add_then_scatter_back [OF ad]
  show "add_events s' (upd_m upd) (upd_t upd) (Vector [target (topology k)])
          (map real_of_int (map uminus (upd_x_star upd))) = Inr s" .
  fix nm
  from add_then_correction [OF assms ad]
  show "sum_list (log_prob (add_proposal P k s nm) upd)
          - sum_list (log_prob (del_proposal P k s') upd) = - c" .
  assume "name k \<noteq> None"
  then obtain n where nm: "name k = Some n" by auto
  from add_then_del [OF assms ad nm] show "del_occult_at P k s' upd = Inr (upd, s, - c)" .
next
  assume d: "del_occult_fn P k s g = Inr (upd, s', c)"
  then have at: "del_occult_at P k s (sample (del_proposal P k s) g) = Inr (upd, s', c)"
    by (simp add: del_occult_fn_def)
  then have "upd = sample (del_proposal P k s) g" by (simp add: del_occult_at_Inr)
  with at have "del_occult_at P k s upd = Inr (upd, s', c)" by simp
  from del_then_add [OF assms this] show "add_occult_at P k s' upd = Inr (upd, s, - c)" .
qed

theorem hastings_symmetry_witness:
  "add_log_prob_unnamed example_proposals
   \<and> add_occult_fn example_proposals example_kernel example_events (0, 1, 9)
       = Inr (\<lparr>upd_m = [0], upd_t = [1], upd_x_star = [5]\<rparr>, [[[3, 2], [1, 5]]], 2)
   \<and> name example_kernel \<noteq> None
   \<and> del_occult_at example_proposals example_kernel [[[3, 2], [1, 5]]]
        \<lparr>upd_m = [0], upd_t = [1], upd_x_star = [5]\<rparr>
       = Inr (\<lparr>upd_m = [0], upd_t = [1], upd_x_star = [5]\<rparr>, example_events, - 2)
   \<and> del_occult_fn example_proposals example_kernel example_events (0, 0, 1)
       = Inr (\<lparr>upd_m = [0], upd_t = [0], upd_x_star = [1]\<rparr>, [[[3, 1], [1, 0]]], - 6)
   \<and> add_occult_at example_proposals example_kernel [[[3, 1], [1, 0]]]
        \<lparr>upd_m = [0], upd_t = [0], upd_x_star = [1]\<rparr>
       = Inr (\<lparr>upd_m = [0], upd_t = [0], upd_x_star = [1]\<rparr>, example_events, - (- 6))"
  using example_unnamed example_add_fn example_del_fn example_name
    hastings_symmetry [OF example_unnamed, of example_kernel example_events "(0, 1, 9)"
      "\<lparr>upd_m = [0], upd_t = [1], upd_x_star = [5]\<rparr>" "[[[3, 2], [1, 5]]]" "2"]
    hastings_symmetry [OF example_unnamed, of example_kernel example_events "(0, 0, 1)"
      "\<lparr>upd_m = [0], upd_t = [0], upd_x_star = [1]\<rparr>" "[[[3, 1], [1, 0]]]" "- 6"]
  by simp

section \<open>Properties of the model\<close>

text \<open>
  C7. With a simulation that threads the seed it is given through its draws, two calls
  of \<open>sample_n\<close> with the same seed and the same model return the same trajectories,
  whatever the ambient generator holds at either call.
\<close>

theorem sample_n_seeded:
  assumes "seed_threaded I"
  shows "sample_n I mdl n (Some s) g = sample_n I mdl n (Some s) g'"
proof -
  from assms have
    "discrete_markov_simulation I (transition_rates mdl) (initial_state mdl) (initial_step mdl)
       (initial_step mdl + real (num_steps mdl) * time_delta mdl) (time_delta mdl)
       (stoichiometry mdl) (Some s) g
     = discrete_markov_simulation I (transition_rates mdl) (initial_state mdl) (initial_step mdl)
       (initial_step mdl + real (num_steps mdl) * time_delta mdl) (time_delta mdl)
       (stoichiometry mdl) (Some s) g'"
    unfolding seed_threaded_def by blast
  then show ?thesis by (simp add: sample_n_def)
qed

theorem sample_n_seeded_witness:
  "seed_threaded example_impl
   \<and> sample_n example_impl example_model 1 (Some 42) 0 = [[[[142, 42]]]]
   \<and> sample_n example_impl example_model 1 (Some 42) 7 = [[[[142, 42]]]]
   \<and> sample_n example_impl example_model 1 None 0 \<noteq> sample_n example_impl example_model 1 None 7"
  using sample_n_seeded [OF example_seed_threaded, of example_model 1 42 7 0]
    example_seed_threaded example_sample
  by simp

text \<open>
  C8. The event shape of a model is the number of metapopulations (the first dimension
  of the initial state), the number of steps and the number of transitions (the first
  dimension of the stoichiometry matrix), in this order; its batch shape is empty.
\<close>

theorem event_shape_layout:
  "event_shape mdl = [length (initial_state mdl), num_steps mdl, length (stoichiometry mdl)]
   \<and> batch_shape mdl = []"
  by (simp add: event_shape_def batch_shape_def)

text \<open>
  C10. The tensor \<open>sample_n\<close> returns has a leading dimension of exactly 1, and does not
  depend on the number \<open>n\<close> of samples asked for.
\<close>

theorem sample_n_one_trajectory:
  "length (sample_n I mdl n sd g) = 1 \<and> sample_n I mdl n sd g = sample_n I mdl n' sd g"
  by (simp add: sample_n_def Let_def split: prod.splits)

end
